theory Spec2Isabelle
  imports Complex_Main
begin

section \<open>HASNA license server: the license lifecycle of hasna-license-server/index.js\<close>

text \<open>
  The server keeps two tables (\<open>licenses\<close>, \<open>activation_logs\<close>) and answers five
  routes. Each route handler is embedded as a function from the clock reading, the
  tables and the request fields to the HTTP response and the tables afterwards.

  Conventions of the embedding:
  \<^item> a request field is \<open>None\<close> when it is absent from the JSON body (JavaScript
    \<open>undefined\<close>) and \<open>Some s\<close> when it is the string \<open>s\<close>; fields of other JSON
    types are outside the model;
  \<^item> strings are ASCII: \<open>toUpperCase\<close> and \<open>trim\<close> act on ASCII letters and ASCII
    white space, and a \<open>VARCHAR(n)\<close> column counts characters;
  \<^item> a JavaScript number is a binary64 value: every arithmetic operation yields the exact
    result rounded to the nearest binary64 number, ties to even (all magnitudes met here
    are far below the overflow threshold);
  \<^item> an instant is an integer number of milliseconds since the epoch, a \<open>DATE\<close> is an
    integer number of days since the epoch; the database driver hands a \<open>DATE\<close> column
    to JavaScript as \<open>new Date(year, month, day)\<close>, the instant at which that day starts
    in the time zone of the server, which is a parameter \<open>zone\<close> of the handlers, and
    which is an invalid date when the instant is outside the range of a JavaScript date;
  \<^item> the two tables are lists of rows; a statement fails when a value does not fit its
    \<open>VARCHAR(n)\<close> column, when the date text is rejected, or when an \<open>INSERT\<close> breaks
    the \<open>UNIQUE\<close> constraint on \<open>license_key\<close>; the statements of one request run
    without interference from other requests;
  \<^item> the texts of the messages are French sentences with accented letters; each is
    represented by a constructor named after it.
\<close>

subsection \<open>JavaScript values and string helpers\<close>

type_synonym field = "string option"

text \<open>\<open>!v\<close> for a value that is \<open>undefined\<close> or a string: true of \<open>undefined\<close> and of the empty string.\<close>

definition falsy :: "field \<Rightarrow> bool" where
  "falsy v = (case v of None \<Rightarrow> True | Some s \<Rightarrow> s = [])"

definition toUpperCase_char :: "char \<Rightarrow> char" where
  "toUpperCase_char c =
     (let n = (of_char c :: nat) in if 97 \<le> n \<and> n \<le> 122 then char_of (n - 32) else c)"

definition toUpperCase :: "string \<Rightarrow> string" where
  "toUpperCase s = map toUpperCase_char s"

definition is_space :: "char \<Rightarrow> bool" where
  "is_space c = ((of_char c :: nat) \<in> {9, 10, 11, 12, 13, 32})"

definition trim :: "string \<Rightarrow> string" where
  "trim s = rev (dropWhile is_space (rev (dropWhile is_space s)))"

text \<open>\<open>s.charAt(i)\<close>: the one-character string at index \<open>i\<close>, the empty string out of range.\<close>

definition charAt :: "string \<Rightarrow> int \<Rightarrow> string" where
  "charAt s i = (if 0 \<le> i \<and> i < int (length s) then [s ! nat i] else [])"

text \<open>\<open>segments.join(sep)\<close>.\<close>

fun join :: "string list \<Rightarrow> string \<Rightarrow> string" where
  "join [] sep = []"
| "join [x] sep = x"
| "join (x # y # ys) sep = x @ sep @ join (y # ys) sep"

subsection \<open>JavaScript numbers\<close>

text \<open>Rounding a real to the nearest integer, a tie going to the even one.\<close>

definition round_half_even :: "real \<Rightarrow> int" where
  "round_half_even y =
     (let f = \<lfloor>y\<rfloor>; r = y - of_int f in
      if r < 1 / 2 then f else if 1 / 2 < r then f + 1 else if even f then f else f + 1)"

text \<open>
  The binary exponent of a nonzero real, not below that of the subnormal numbers, and
  the spacing of the binary64 numbers (53 significant bits) at that exponent.
\<close>

definition exponent :: "real \<Rightarrow> int" where
  "exponent x = max \<lfloor>log 2 \<bar>x\<bar>\<rfloor> (- 1022)"

definition ulp :: "real \<Rightarrow> real" where
  "ulp x = 2 powr real_of_int (exponent x - 52)"

text \<open>The binary64 number nearest to a real, ties to even.\<close>

definition binary64 :: "real \<Rightarrow> real" where
  "binary64 x = (if x = 0 then 0 else real_of_int (round_half_even (x / ulp x)) * ulp x)"

subsection \<open>JavaScript dates\<close>

definition ms_per_day :: int where
  "ms_per_day = 1000 * 60 * 60 * 24"

text \<open>
  A \<open>Date\<close> holds a time value: an integer number of milliseconds of magnitude at most
  8.64e15, or NaN (an invalid date), here \<open>None\<close>.
\<close>

definition TimeClip :: "int \<Rightarrow> int option" where
  "TimeClip t = (if \<bar>t\<bar> \<le> 8640000000000000 then Some t else None)"

text \<open>
  \<open>new Date(license.expires_at)\<close> for the \<open>DATE\<close> \<open>d\<close>, where \<open>zone d\<close> is the instant at
  which the day \<open>d\<close> starts in the time zone of the server.
\<close>

definition new_Date :: "(int \<Rightarrow> int) \<Rightarrow> int \<Rightarrow> int option" where
  "new_Date zone d = TimeClip (zone d)"

text \<open>\<open>today > expiresAt\<close> and \<open>today <= expiresAt\<close>: false when \<open>expiresAt\<close> is invalid.\<close>

definition gt_Date :: "int \<Rightarrow> int option \<Rightarrow> bool" where
  "gt_Date today expiresAt = (case expiresAt of None \<Rightarrow> False | Some e \<Rightarrow> today > e)"

definition le_Date :: "int \<Rightarrow> int option \<Rightarrow> bool" where
  "le_Date today expiresAt = (case expiresAt of None \<Rightarrow> False | Some e \<Rightarrow> today \<le> e)"

text \<open>
  \<open>Math.ceil((expiresAt - today) / (1000 * 60 * 60 * 24))\<close>: a subtraction and a division
  of numbers, then the ceiling; NaN (sent as \<open>null\<close>) when \<open>expiresAt\<close> is invalid.
\<close>

definition Math_ceil_days :: "int option \<Rightarrow> int \<Rightarrow> int option" where
  "Math_ceil_days expiresAt today =
     map_option
       (\<lambda>e. \<lceil>binary64 (binary64 (real_of_int e - real_of_int today) / (1000 * 60 * 60 * 24))\<rceil>)
       expiresAt"

text \<open>A server whose time zone is UTC, and the calendar day an instant falls on there.\<close>

definition utc_midnight :: "int \<Rightarrow> int" where
  "utc_midnight d = d * ms_per_day"

definition date_of :: "int \<Rightarrow> int" where
  "date_of t = t div ms_per_day"

subsection \<open>The tables (index.js, lines 33-60)\<close>

record license =
  license_key :: string
  client_name :: string
  client_email :: "string option"
  machine_id :: "string option"
  activated_at :: "int option"
  expires_at :: int
  is_active :: bool
  created_at :: int
  license_notes :: "string option"

datatype log_message =
    Cle_invalide
  | Licence_desactivee
  | Licence_expiree
  | Deja_activee_sur_autre_machine
  | Activation_reussie

record activation_log =
  log_license_key :: string
  log_machine_id :: string
  log_ip_address :: "string option"
  log_action :: string
  log_success :: bool
  log_message :: log_message
  log_created_at :: int

record database =
  licenses :: "license list"
  activation_logs :: "activation_log list"

text \<open>
  Storing a string into a \<open>VARCHAR(n)\<close> column: a string of at most \<open>n\<close> characters is
  kept, a longer one whose excess is made of spaces is cut to \<open>n\<close> characters, any other
  is rejected with an error. A nullable column takes \<open>NULL\<close> as it is.
\<close>

definition varchar :: "nat \<Rightarrow> string \<Rightarrow> string option" where
  "varchar n s =
     (if length s \<le> n then Some s
      else if list_all (\<lambda>c. c = CHR '' '') (drop n s) then Some (take n s)
      else None)"

definition varchar_null :: "nat \<Rightarrow> string option \<Rightarrow> string option option" where
  "varchar_null n v = (case v of None \<Rightarrow> Some None | Some s \<Rightarrow> map_option Some (varchar n s))"

subsection \<open>Responses\<close>

datatype message =
    Cle_et_machine_requis
  | Cle_de_licence_invalide
  | Licence_a_ete_desactivee
  | Licence_a_expire_le int
  | Deja_activee_sur_un_autre_ordinateur
  | Erreur_serveur_lors_de_l_activation
  | Erreur_serveur
  | Acces_non_autorise
  | Nom_du_client_et_date_requis
  | Erreur_creation_licence
  | Licence_non_trouvee

text \<open>
  The JSON bodies the handlers send. A date is sent as the text of its instant and a
  number as its digits; an invalid date and NaN are both sent as \<open>null\<close>, here \<open>None\<close>.
  \<^item> \<open>Failure m\<close> is \<open>{success: false, message: m}\<close>;
  \<^item> \<open>Activated c e d\<close> is \<open>{success: true, message, data: {client_name: c, expires_at: e,
    days_remaining: d}}\<close>;
  \<^item> \<open>Not_verified\<close> is \<open>{success: false, valid: false, message}\<close>;
  \<^item> \<open>Verified v c e d a\<close> is \<open>{success: true, valid: v, data: {client_name: c,
    expires_at: e, days_remaining: d, is_active: a}}\<close>;
  \<^item> \<open>Created k c e\<close> is \<open>{success: true, message, data: {license_key: k, client_name: c,
    expires_at: e}}\<close>;
  \<^item> \<open>Listed rows\<close> is \<open>{success: true, data: rows}\<close>;
  \<^item> \<open>Machine_reset\<close> is \<open>{success: true, message}\<close>.
\<close>

datatype body =
    Failure message
  | Activated string "int option" "int option"
  | Not_verified
  | Verified bool string "int option" "int option" bool
  | Created string string string
  | Listed "license list"
  | Machine_reset

type_synonym response = "nat \<times> body"

subsection \<open>Helpers (index.js, lines 358-381)\<close>

definition chars :: string where
  "chars = ''ABCDEFGHIJKLMNOPQRSTUVWXYZ0123456789''"

text \<open>
  The inner loop of \<open>generateLicenseKey\<close>. \<open>random\<close> gives the value of each call of
  \<open>Math.random()\<close>, \<open>c\<close> counts the calls made so far, and the third argument counts
  the iterations that remain. The index is
  \<open>Math.floor(Math.random() * chars.length)\<close>, a product of numbers.
\<close>

fun segment_loop :: "(nat \<Rightarrow> real) \<Rightarrow> nat \<Rightarrow> nat \<Rightarrow> string \<Rightarrow> string" where
  "segment_loop random c 0 segment = segment"
| "segment_loop random c (Suc n) segment =
     segment_loop random (Suc c) n
       (segment @ charAt chars \<lfloor>binary64 (random c * real (length chars))\<rfloor>)"

text \<open>The outer loop: each pass builds one segment from four calls and pushes it.\<close>

fun segments_loop :: "(nat \<Rightarrow> real) \<Rightarrow> nat \<Rightarrow> nat \<Rightarrow> string list \<Rightarrow> string list" where
  "segments_loop random c 0 segments = segments"
| "segments_loop random c (Suc n) segments =
     segments_loop random (c + 4) n (segments @ [segment_loop random c 4 []])"

definition generateLicenseKey :: "(nat \<Rightarrow> real) \<Rightarrow> string" where
  "generateLicenseKey random = ''HASNA-'' @ join (segments_loop random 0 4 []) ''-''"

text \<open>
  The row that \<open>INSERT INTO activation_logs\<close> stores, stamped by the store: \<open>None\<close> when
  a value does not fit its column (\<open>license_key VARCHAR(50)\<close>, \<open>machine_id VARCHAR(255)\<close>,
  \<open>ip_address VARCHAR(45)\<close>, \<open>action VARCHAR(20)\<close>).
\<close>

definition insert_activation_log ::
  "int \<Rightarrow> string \<Rightarrow> string \<Rightarrow> string option \<Rightarrow> string \<Rightarrow> bool \<Rightarrow> log_message
    \<Rightarrow> activation_log option" where
  "insert_activation_log now key mid ip_address action success msg =
     (case (varchar 50 key, varchar 255 mid, varchar_null 45 ip_address, varchar 20 action) of
        (Some k, Some m, Some i, Some a) \<Rightarrow>
          Some \<lparr>log_license_key = k, log_machine_id = m, log_ip_address = i,
                log_action = a, log_success = success, log_message = msg,
                log_created_at = now\<rparr>
      | _ \<Rightarrow> None)"

text \<open>
  \<open>logActivation\<close>: the row is appended; when the store rejects it, the \<open>catch\<close> only
  prints the error and the tables stay as they are.
\<close>

definition logActivation ::
  "int \<Rightarrow> database \<Rightarrow> string \<Rightarrow> string \<Rightarrow> string option \<Rightarrow> string \<Rightarrow> bool \<Rightarrow> log_message
    \<Rightarrow> database" where
  "logActivation now db key mid ip_address action success msg =
     (case insert_activation_log now key mid ip_address action success msg of
        Some row \<Rightarrow> db\<lparr>activation_logs := activation_logs db @ [row]\<rparr>
      | None \<Rightarrow> db)"

subsection \<open>POST /api/license/activate (index.js, lines 82-175)\<close>

text \<open>\<open>SELECT * FROM licenses WHERE license_key = $1\<close>.\<close>

definition select_by_key :: "database \<Rightarrow> string \<Rightarrow> license list" where
  "select_by_key db k = filter (\<lambda>l. license_key l = k) (licenses db)"

text \<open>
  \<open>UPDATE licenses SET machine_id = $1, activated_at = CURRENT_TIMESTAMP WHERE license_key = $2\<close>,
  issued when a row with the key exists: \<open>None\<close> when the machine identifier does not
  fit \<open>machine_id VARCHAR(255)\<close>.
\<close>

definition update_binding :: "int \<Rightarrow> database \<Rightarrow> string \<Rightarrow> string \<Rightarrow> database option" where
  "update_binding now db mid k =
     (case varchar 255 mid of
        None \<Rightarrow> None
      | Some m \<Rightarrow>
          Some (db\<lparr>licenses := map (\<lambda>l. if license_key l = k
                                         then l\<lparr>machine_id := Some m, activated_at := Some now\<rparr>
                                         else l) (licenses db)\<rparr>))"

text \<open>
  The handler. A failed \<open>UPDATE\<close> throws inside the \<open>try\<close> block and the \<open>catch\<close>
  answers 500, before the success is logged.
\<close>

definition activate ::
  "(int \<Rightarrow> int) \<Rightarrow> int \<Rightarrow> database \<Rightarrow> field \<Rightarrow> field \<Rightarrow> string option
    \<Rightarrow> response \<times> database" where
  "activate zone now db license_key_f machine_id_f ip_address =
     (case (license_key_f, machine_id_f) of
        (Some key, Some mid) \<Rightarrow>
          if falsy (Some key) \<or> falsy (Some mid) then ((400, Failure Cle_et_machine_requis), db)
          else
            (case select_by_key db (trim (toUpperCase key)) of
               [] \<Rightarrow>
                 ((404, Failure Cle_de_licence_invalide),
                  logActivation now db key mid ip_address ''ACTIVATE'' False Cle_invalide)
             | lic # _ \<Rightarrow>
                 if \<not> is_active lic then
                   ((403, Failure Licence_a_ete_desactivee),
                    logActivation now db key mid ip_address ''ACTIVATE'' False Licence_desactivee)
                 else
                   let today = now; expiresAt = new_Date zone (expires_at lic) in
                   if gt_Date today expiresAt then
                     ((403, Failure (Licence_a_expire_le (expires_at lic))),
                      logActivation now db key mid ip_address ''ACTIVATE'' False Licence_expiree)
                   else if \<not> falsy (machine_id lic) \<and> machine_id lic \<noteq> Some mid then
                     ((403, Failure Deja_activee_sur_un_autre_ordinateur),
                      logActivation now db key mid ip_address ''ACTIVATE'' False
                        Deja_activee_sur_autre_machine)
                   else
                     (case (if falsy (machine_id lic)
                            then update_binding now db mid (trim (toUpperCase key))
                            else Some db) of
                        None \<Rightarrow> ((500, Failure Erreur_serveur_lors_de_l_activation), db)
                      | Some db1 \<Rightarrow>
                          let db2 = logActivation now db1 key mid ip_address ''ACTIVATE'' True
                                      Activation_reussie;
                              daysRemaining = Math_ceil_days expiresAt today
                          in ((200, Activated (client_name lic) expiresAt daysRemaining), db2)))
      | _ \<Rightarrow> ((400, Failure Cle_et_machine_requis), db))"

subsection \<open>POST /api/license/verify (index.js, lines 178-229)\<close>

text \<open>\<open>SELECT * FROM licenses WHERE license_key = $1 AND machine_id = $2\<close>.\<close>

definition select_by_key_and_machine :: "database \<Rightarrow> string \<Rightarrow> string \<Rightarrow> license list" where
  "select_by_key_and_machine db k mid =
     filter (\<lambda>l. license_key l = k \<and> machine_id l = Some mid) (licenses db)"

definition verify ::
  "(int \<Rightarrow> int) \<Rightarrow> int \<Rightarrow> database \<Rightarrow> field \<Rightarrow> field \<Rightarrow> response \<times> database" where
  "verify zone now db license_key_f machine_id_f =
     (case (license_key_f, machine_id_f) of
        (Some key, Some mid) \<Rightarrow>
          if falsy (Some key) \<or> falsy (Some mid) then ((400, Failure Cle_et_machine_requis), db)
          else
            (case select_by_key_and_machine db (trim (toUpperCase key)) mid of
               [] \<Rightarrow> ((200, Not_verified), db)
             | lic # _ \<Rightarrow>
                 let today = now; expiresAt = new_Date zone (expires_at lic);
                     isValid = (is_active lic \<and> le_Date today expiresAt);
                     daysRemaining = Math_ceil_days expiresAt today
                 in ((200, Verified isValid (client_name lic) expiresAt daysRemaining
                             (is_active lic)), db))
      | _ \<Rightarrow> ((400, Failure Cle_et_machine_requis), db))"

subsection \<open>POST /api/admin/license/create (index.js, lines 232-280)\<close>

text \<open>
  \<open>ADMIN_KEY\<close> is \<open>process.env.ADMIN_KEY\<close>: \<open>None\<close> when the variable is not set.
  \<open>parse_date\<close> is the store's reading of the \<open>expires_at\<close> text as a \<open>DATE\<close>
  (\<open>None\<close> when it rejects the text); it is not part of index.js and is a parameter.
  The \<open>INSERT\<close> fails when a value does not fit its column (\<open>license_key VARCHAR(50)\<close>,
  \<open>client_name VARCHAR(255)\<close>, \<open>client_email VARCHAR(255)\<close>), when the date is rejected
  or when the key is already in the table.
\<close>

definition insert_license ::
  "(string \<Rightarrow> int option) \<Rightarrow> int \<Rightarrow> database \<Rightarrow> string \<Rightarrow> string \<Rightarrow> string option \<Rightarrow> string
    \<Rightarrow> string option \<Rightarrow> database option" where
  "insert_license parse_date now db key cname email expires notes_v =
     (case (varchar 50 key, varchar 255 cname, varchar_null 255 email, parse_date expires) of
        (Some k, Some c, Some e, Some d) \<Rightarrow>
          if select_by_key db k \<noteq> [] then None
          else Some (db\<lparr>licenses := licenses db @
                 [\<lparr>license_key = k, client_name = c, client_email = e, machine_id = None,
                   activated_at = None, expires_at = d, is_active = True,
                   created_at = now, license_notes = notes_v\<rparr>]\<rparr>)
      | _ \<Rightarrow> None)"

definition create ::
  "string option \<Rightarrow> (nat \<Rightarrow> real) \<Rightarrow> (string \<Rightarrow> int option) \<Rightarrow> int \<Rightarrow> database
    \<Rightarrow> field \<Rightarrow> field \<Rightarrow> field \<Rightarrow> field \<Rightarrow> field \<Rightarrow> response \<times> database" where
  "create ADMIN_KEY random parse_date now db admin_key client_name_f client_email_f
      expires_at_f notes_f =
     (if admin_key \<noteq> ADMIN_KEY then ((401, Failure Acces_non_autorise), db)
      else
        (case (client_name_f, expires_at_f) of
           (Some cname, Some expires) \<Rightarrow>
             if falsy (Some cname) \<or> falsy (Some expires) then
               ((400, Failure Nom_du_client_et_date_requis), db)
             else
               let key = generateLicenseKey random in
               (case insert_license parse_date now db key cname client_email_f expires notes_f of
                  None \<Rightarrow> ((500, Failure Erreur_creation_licence), db)
                | Some db1 \<Rightarrow> ((200, Created key cname expires), db1))
         | _ \<Rightarrow> ((400, Failure Nom_du_client_et_date_requis), db)))"

subsection \<open>GET /api/admin/licenses (index.js, lines 283-313)\<close>

text \<open>\<open>SELECT * FROM licenses ORDER BY created_at DESC\<close>.\<close>

definition list_licenses :: "string option \<Rightarrow> database \<Rightarrow> field \<Rightarrow> response \<times> database" where
  "list_licenses ADMIN_KEY db admin_key =
     (if admin_key \<noteq> ADMIN_KEY then ((401, Failure Acces_non_autorise), db)
      else ((200, Listed (sort_key (\<lambda>l. - created_at l) (licenses db))), db))"

subsection \<open>POST /api/admin/license/reset-machine (index.js, lines 316-354)\<close>

text \<open>\<open>UPDATE licenses SET machine_id = NULL WHERE license_key = $1 RETURNING *\<close>.\<close>

definition update_reset :: "database \<Rightarrow> string \<Rightarrow> database" where
  "update_reset db k =
     db\<lparr>licenses := map (\<lambda>l. if license_key l = k then l\<lparr>machine_id := None\<rparr> else l)
                          (licenses db)\<rparr>"

text \<open>
  \<open>license_key.toUpperCase()\<close> on an absent field throws a \<open>TypeError\<close> inside the
  \<open>try\<close> block; the \<open>catch\<close> answers 500.
\<close>

definition resetMachine :: "string option \<Rightarrow> database \<Rightarrow> field \<Rightarrow> field \<Rightarrow> response \<times> database" where
  "resetMachine ADMIN_KEY db admin_key license_key_f =
     (if admin_key \<noteq> ADMIN_KEY then ((401, Failure Acces_non_autorise), db)
      else
        (case license_key_f of
           None \<Rightarrow> ((500, Failure Erreur_serveur), db)
         | Some key \<Rightarrow>
             if select_by_key db (trim (toUpperCase key)) = [] then
               ((404, Failure Licence_non_trouvee), db)
             else ((200, Machine_reset), update_reset db (trim (toUpperCase key)))))"

subsection \<open>The row a lookup by key yields\<close>

definition find_license :: "database \<Rightarrow> string \<Rightarrow> license option" where
  "find_license db k = find (\<lambda>l. license_key l = k) (licenses db)"

text \<open>The \<open>UNIQUE\<close> constraint on \<open>license_key\<close>.\<close>

definition unique_keys :: "database \<Rightarrow> bool" where
  "unique_keys db = distinct (map license_key (licenses db))"





subsection \<open>The shape of a license key\<close>

definition is_group :: "string \<Rightarrow> bool" where
  "is_group g = (length g = 4 \<and> list_all (\<lambda>c. c \<in> set chars) g)"

definition key_shape :: "string \<Rightarrow> bool" where
  "key_shape k =
     (length k = 25 \<and> take 6 k = ''HASNA-'' \<and>
      is_group (take 4 (drop 6 k)) \<and> k ! 10 = CHR ''-'' \<and>
      is_group (take 4 (drop 11 k)) \<and> k ! 15 = CHR ''-'' \<and>
      is_group (take 4 (drop 16 k)) \<and> k ! 20 = CHR ''-'' \<and>
      is_group (take 4 (drop 21 k)))"

subsection \<open>Sample data\<close>

text \<open>A license for the client of the scenario, expiring on 2024-12-31 (day 20088).\<close>

definition moulin :: license where
  "moulin = \<lparr>license_key = ''HASNA-AAAA-AAAA-AAAA-AAAA'', client_name = ''Moulin Test'',
     client_email = None, machine_id = None, activated_at = None, expires_at = 20088,
     is_active = True, created_at = 0, license_notes = None\<rparr>"

definition noon_2024_12_31 :: int where
  "noon_2024_12_31 = 20088 * 86400000 + 43200000"

section \<open>Properties\<close>

subsection \<open>Rounding to binary64\<close>

lemma round_half_even_near:
  "y - 1 / 2 \<le> of_int (round_half_even y)" "of_int (round_half_even y) \<le> y + 1 / 2"
  unfolding round_half_even_def Let_def by (auto; linarith)+

lemma round_half_even_int [simp]: "round_half_even (of_int n) = n"
  by (simp add: round_half_even_def)

lemma round_half_even_le: "y \<le> of_int N \<Longrightarrow> round_half_even y \<le> N"
  unfolding round_half_even_def Let_def by (auto; linarith)

lemma round_half_even_ge: "of_int N \<le> y \<Longrightarrow> N \<le> round_half_even y"
  unfolding round_half_even_def Let_def by (auto; linarith)

lemma round_half_even_less: "y < of_int N - 1 / 2 \<Longrightarrow> round_half_even y < N"
  unfolding round_half_even_def Let_def by (auto; linarith)

lemma ulp_pos: "0 < ulp x"
  by (simp add: ulp_def)

lemma exponent_unique:
  assumes "2 powr of_int k \<le> \<bar>x\<bar>" and "\<bar>x\<bar> < 2 powr of_int (k + 1)" and "- 1022 \<le> k"
  shows "exponent x = k"
proof -
  have pos: "0 < \<bar>x\<bar>" using assms(1) by (smt (verit) powr_gt_zero)
  have "of_int k \<le> log 2 \<bar>x\<bar>" using assms(1) pos by (simp add: le_log_iff)
  moreover have "log 2 \<bar>x\<bar> < of_int k + 1" using assms(2) pos by (simp add: log_less_iff)
  ultimately have "\<lfloor>log 2 \<bar>x\<bar>\<rfloor> = k" by (rule floor_unique)
  with assms(3) show ?thesis by (simp add: exponent_def)
qed

lemma exponent_le:
  assumes "x \<noteq> 0" and "\<bar>x\<bar> < 2 powr of_int (k + 1)" and "- 1022 \<le> k"
  shows "exponent x \<le> k"
proof -
  have "log 2 \<bar>x\<bar> < of_int k + 1" using assms(1,2) by (simp add: log_less_iff)
  then have "\<lfloor>log 2 \<bar>x\<bar>\<rfloor> \<le> k" by (simp add: floor_le_iff)
  with assms(3) show ?thesis by (simp add: exponent_def)
qed

lemma ulp_eq:
  assumes "2 powr of_int k \<le> \<bar>x\<bar>" and "\<bar>x\<bar> < 2 powr of_int (k + 1)" and "- 1022 \<le> k"
  shows "ulp x = 2 powr of_int (k - 52)"
  using exponent_unique [OF assms] by (simp add: ulp_def)

lemma next_binade: "2 powr of_int (exponent x + 1) = 2 ^ 53 * ulp x"
proof -
  have "real_of_int (exponent x + 1) = 53 + of_int (exponent x - 52)"
    by simp
  then have "(2::real) powr of_int (exponent x + 1) = 2 powr (53 + of_int (exponent x - 52))"
    by (simp only:)
  also have "\<dots> = 2 powr 53 * ulp x"
    unfolding ulp_def by (rule powr_add)
  finally show ?thesis by simp
qed

lemma abs_less_next_binade:
  assumes "x \<noteq> 0"
  shows "\<bar>x\<bar> < 2 powr of_int (exponent x + 1)"
proof -
  have "log 2 \<bar>x\<bar> < of_int (\<lfloor>log 2 \<bar>x\<bar>\<rfloor> + 1)" by simp
  also have "\<dots> \<le> of_int (exponent x + 1)" by (simp add: exponent_def)
  finally have "log 2 \<bar>x\<bar> < of_int (exponent x + 1)" .
  with assms show ?thesis by (simp add: log_less_iff)
qed

lemma scaled_less_2_53:
  assumes "x \<noteq> 0"
  shows "\<bar>x\<bar> / ulp x < 2 ^ 53"
proof -
  from abs_less_next_binade [OF assms] have "\<bar>x\<bar> < 2 ^ 53 * ulp x"
    by (simp only: next_binade)
  then show ?thesis using ulp_pos [of x] by (simp add: pos_divide_less_eq)
qed

lemma binary64_eq:
  "x \<noteq> 0 \<Longrightarrow> binary64 x = real_of_int (round_half_even (x / ulp x)) * ulp x"
  by (simp add: binary64_def)

text \<open>Rounding moves a number by at most half the spacing.\<close>

lemma binary64_error: "\<bar>binary64 x - x\<bar> \<le> ulp x / 2"
proof (cases "x = 0")
  case True
  then show ?thesis using ulp_pos [of 0] by (simp add: binary64_def)
next
  case False
  let ?m = "round_half_even (x / ulp x)"
  have "\<bar>of_int ?m - x / ulp x\<bar> \<le> 1 / 2"
    using round_half_even_near [of "x / ulp x"] by linarith
  then have "\<bar>of_int ?m - x / ulp x\<bar> * ulp x \<le> 1 / 2 * ulp x"
    using ulp_pos [of x] by (intro mult_right_mono) simp_all
  moreover have "\<bar>of_int ?m - x / ulp x\<bar> * ulp x = \<bar>of_int ?m * ulp x - x\<bar>"
  proof -
    have "\<bar>of_int ?m - x / ulp x\<bar> * ulp x = \<bar>(of_int ?m - x / ulp x) * ulp x\<bar>"
      using ulp_pos [of x] by (simp add: abs_mult)
    also have "(of_int ?m - x / ulp x) * ulp x = of_int ?m * ulp x - x"
      using ulp_pos [of x] by (simp add: left_diff_distrib)
    finally show ?thesis .
  qed
  ultimately show ?thesis using False by (simp add: binary64_def)
qed

lemma binary64_nonneg:
  assumes "0 \<le> x"
  shows "0 \<le> binary64 x"
proof (cases "x = 0")
  case True
  then show ?thesis by (simp add: binary64_def)
next
  case False
  have "0 \<le> x / ulp x" using assms ulp_pos [of x] by simp
  then have "0 \<le> round_half_even (x / ulp x)"
    using round_half_even_ge [of 0 "x / ulp x"] by simp
  then show ?thesis using False ulp_pos [of x] by (simp add: binary64_eq)
qed

lemma binary64_le_next_binade:
  assumes "x \<noteq> 0"
  shows "binary64 x \<le> 2 powr of_int (exponent x + 1)"
proof -
  have "x / ulp x \<le> \<bar>x\<bar> / ulp x"
    using ulp_pos [of x] by (simp add: divide_right_mono)
  also have "\<dots> < 2 ^ 53" using assms by (rule scaled_less_2_53)
  finally have "x / ulp x \<le> real_of_int (2 ^ 53)" by simp
  then have "round_half_even (x / ulp x) \<le> 2 ^ 53"
    by (rule round_half_even_le)
  then have "real_of_int (round_half_even (x / ulp x)) \<le> 2 ^ 53"
    by simp
  then have "binary64 x \<le> 2 ^ 53 * ulp x"
    using assms ulp_pos [of x] by (simp add: binary64_eq mult_right_mono)
  then show ?thesis by (simp only: next_binade)
qed

text \<open>An integer below 2^53 in magnitude is a binary64 number.\<close>

lemma binary64_of_int:
  assumes "\<bar>n\<bar> < 2 ^ 53"
  shows "binary64 (real_of_int n) = real_of_int n"
proof (cases "n = 0")
  case True
  then show ?thesis by (simp add: binary64_def)
next
  case False
  let ?x = "real_of_int n"
  let ?e = "exponent ?x"
  have ne: "?x \<noteq> 0" using False by simp
  have "1 \<le> \<bar>?x\<bar>" using False by (simp flip: of_int_abs)
  then have "0 \<le> log 2 \<bar>?x\<bar>" by simp
  then have lo: "0 \<le> ?e" by (simp add: exponent_def)
  have "\<bar>?x\<bar> < 2 ^ 53" using assms by (simp flip: of_int_abs)
  then have "\<bar>?x\<bar> < 2 powr of_int (52 + 1)" by simp
  with ne have hi: "?e \<le> 52" by (intro exponent_le) simp_all
  define k where "k = nat (52 - ?e)"
  have "ulp ?x = 2 powr (- real k)"
    using hi by (simp add: ulp_def k_def)
  then have u: "ulp ?x = 1 / 2 ^ k"
    by (simp add: powr_minus_divide powr_realpow)
  have "?x / ulp ?x = real_of_int (n * 2 ^ k)"
    by (simp add: u)
  then have "round_half_even (?x / ulp ?x) = n * 2 ^ k"
    by (simp only: round_half_even_int)
  then show ?thesis using ne by (simp add: binary64_eq u)
qed

text \<open>A binary64 number below one is at most one minus 2^-53.\<close>

lemma binary64_below_one:
  assumes "binary64 r = r" and "0 \<le> r" and "r < 1"
  shows "r \<le> 1 - 1 / 2 ^ 53"
proof (cases "r < 1 / 2")
  case True
  have "(1::real) / 2 \<le> 1 - 1 / 2 ^ 53" by simp
  with True show ?thesis by linarith
next
  case False
  then have lo: "2 powr of_int (- 1) \<le> \<bar>r\<bar>"
    by (simp add: powr_minus_divide)
  have hi: "\<bar>r\<bar> < 2 powr of_int (- 1 + 1)"
    using assms(2,3) by simp
  have u: "ulp r = 1 / 2 ^ 53"
    using ulp_eq [OF lo hi] by (simp add: powr_minus_divide)
  let ?m = "round_half_even (r / ulp r)"
  from False have "r \<noteq> 0" by auto
  with assms(1) have r: "r = of_int ?m / 2 ^ 53"
    by (simp add: binary64_eq u)
  with assms(3) have "real_of_int ?m < 2 ^ 53"
    by (simp add: divide_less_eq)
  then have "?m < 2 ^ 53"
    by simp
  then have "?m \<le> 2 ^ 53 - 1" by simp
  then have "real_of_int ?m \<le> 2 ^ 53 - 1"
    by simp
  then have "real_of_int ?m / 2 ^ 53 \<le> (2 ^ 53 - 1) / 2 ^ 53"
    by (simp add: divide_right_mono)
  with r show ?thesis by (simp add: diff_divide_distrib)
qed

text \<open>
  The rounded product of a binary64 number below one and 36 has its floor among
  0, ..., 35: the product may round up, but never as far as 36.
\<close>

lemma random_index_in_range:
  assumes "binary64 r = r" and "0 \<le> r" and "r < 1"
  shows "0 \<le> \<lfloor>binary64 (r * 36)\<rfloor> \<and> \<lfloor>binary64 (r * 36)\<rfloor> < 36"
proof -
  have top: "r * 36 \<le> 36 - 36 / 2 ^ 53"
    using binary64_below_one [OF assms] by simp
  have nonneg: "0 \<le> binary64 (r * 36)"
    using assms(2) by (intro binary64_nonneg) simp
  have "binary64 (r * 36) < 36"
  proof (cases "r * 36 < 32")
    case True
    show ?thesis
    proof (cases "r * 36 = 0")
      case True
      then show ?thesis by (simp add: binary64_def)
    next
      case False
      have "\<bar>r * 36\<bar> < 2 powr of_int (4 + 1)"
        using True assms(2) by simp
      with False have "exponent (r * 36) \<le> 4"
        by (intro exponent_le) simp_all
      then have "(2::real) powr of_int (exponent (r * 36) + 1) \<le> 2 powr of_int (4 + 1)"
        by (intro powr_mono) simp_all
      with binary64_le_next_binade [OF False] have "binary64 (r * 36) \<le> 32"
        by simp
      then show ?thesis by simp
    qed
  next
    case False
    then have lo: "2 powr of_int 5 \<le> \<bar>r * 36\<bar>"
      by simp
    have hi: "\<bar>r * 36\<bar> < 2 powr of_int (5 + 1)"
      using top assms(2) by simp
    have u: "ulp (r * 36) = 1 / 2 ^ 47"
      using ulp_eq [OF lo hi] by (simp add: powr_minus_divide)
    have ne: "r * 36 \<noteq> 0" using False by simp
    have "r * 36 / ulp (r * 36) = r * 36 * 2 ^ 47"
      by (simp add: u)
    also have "\<dots> \<le> (36 - 36 / 2 ^ 53) * 2 ^ 47"
      using top by (intro mult_right_mono) simp_all
    also have "\<dots> < real_of_int (36 * 2 ^ 47) - 1 / 2"
      by simp
    finally have "round_half_even (r * 36 / ulp (r * 36)) < 36 * 2 ^ 47"
      by (rule round_half_even_less)
    then have "round_half_even (r * 36 / ulp (r * 36)) \<le> 36 * 2 ^ 47 - 1"
      by simp
    then have "real_of_int (round_half_even (r * 36 / ulp (r * 36))) \<le> 36 * 2 ^ 47 - 1"
      by simp
    then have "binary64 (r * 36) \<le> (36 * 2 ^ 47 - 1) / 2 ^ 47"
      using ne by (simp add: binary64_eq u divide_right_mono)
    also have "\<dots> < 36" by simp
    finally show ?thesis .
  qed
  then have "\<lfloor>binary64 (r * 36)\<rfloor> < 36"
    by (simp add: floor_less_iff)
  moreover have "0 \<le> \<lfloor>binary64 (r * 36)\<rfloor>"
    using nonneg by simp
  ultimately show ?thesis by simp
qed

text \<open>
  The rounded quotient of an integer below 2^53 in magnitude by the number of
  milliseconds in a day has the ceiling of the exact quotient.
\<close>

lemma ceiling_binary64_days:
  assumes "\<bar>x\<bar> < 2 ^ 53"
  shows "\<lceil>binary64 (real_of_int x / 86400000)\<rceil> = \<lceil>real_of_int x / 86400000\<rceil>"
proof (cases "86400000 dvd x")
  case True
  then obtain m where m: "x = 86400000 * m" by (auto simp: dvd_def)
  with assms have "\<bar>m\<bar> < 2 ^ 53" by (simp add: abs_mult)
  then have "binary64 (real_of_int m) = real_of_int m" by (rule binary64_of_int)
  moreover have "real_of_int x / 86400000 = real_of_int m" using m by simp
  ultimately show ?thesis by simp
next
  case False
  let ?q = "real_of_int x / 86400000"
  let ?n = "\<lceil>?q\<rceil>"
  have ne: "?q \<noteq> 0" using False by auto
  have "\<bar>?q\<bar> = real_of_int \<bar>x\<bar> / 86400000" by simp
  also have "\<dots> < 2 ^ 53 / 86400000"
    using assms by (simp add: divide_strict_right_mono)
  also have "\<dots> < 2 powr of_int (26 + 1)" by simp
  finally have "exponent ?q \<le> 26"
    using ne by (intro exponent_le) simp_all
  then have "ulp ?q \<le> 2 powr of_int (26 - 52)"
    unfolding ulp_def by (intro powr_mono) simp_all
  then have "ulp ?q \<le> 1 / 2 ^ 26" by (simp add: powr_minus_divide)
  with binary64_error [of ?q] have err: "\<bar>binary64 ?q - ?q\<bar> \<le> 1 / 2 ^ 27"
    by simp
  have "?q \<noteq> real_of_int ?n"
  proof
    assume "?q = real_of_int ?n"
    then have "real_of_int x = real_of_int (86400000 * ?n)" by simp
    then have "x = 86400000 * ?n" by (simp only: of_int_eq_iff)
    then have "86400000 dvd x" by (rule dvdI)
    with False show False by contradiction
  qed
  moreover have "?q \<le> real_of_int ?n" by (rule le_of_int_ceiling)
  ultimately have "?q < real_of_int ?n" by (rule order.not_eq_order_implies_strict)
  then have "real_of_int x < real_of_int (86400000 * ?n)" by simp
  then have "x < 86400000 * ?n" by (simp only: of_int_less_iff)
  then have "x \<le> 86400000 * ?n - 1" by simp
  then have "real_of_int x \<le> real_of_int (86400000 * ?n - 1)" by (simp only: of_int_le_iff)
  then have up: "?q \<le> real_of_int ?n - 1 / 86400000" by simp
  have "real_of_int ?n - 1 < ?q" by linarith
  then have "real_of_int (86400000 * (?n - 1)) < real_of_int x" by simp
  then have "86400000 * (?n - 1) < x" by (simp only: of_int_less_iff)
  then have "86400000 * (?n - 1) + 1 \<le> x" by simp
  then have "real_of_int (86400000 * (?n - 1) + 1) \<le> real_of_int x" by (simp only: of_int_le_iff)
  then have low: "real_of_int ?n - 1 + 1 / 86400000 \<le> ?q" by simp
  have c: "(1::real) / 2 ^ 27 < 1 / 86400000" by simp
  have "binary64 ?q \<le> real_of_int ?n" using err up c by linarith
  moreover have "real_of_int ?n - 1 < binary64 ?q" using err low c by linarith
  ultimately show ?thesis by (intro ceiling_unique) simp_all
qed

text \<open>
  The days remaining, as the handlers compute them, are the exact ceiling as long as the
  two instants are less than 2^53 milliseconds apart.
\<close>

lemma Math_ceil_days_exact:
  assumes "\<bar>e - today\<bar> < 2 ^ 53"
  shows "Math_ceil_days (Some e) today = Some \<lceil>real_of_int (e - today) / real_of_int ms_per_day\<rceil>"
proof -
  have "binary64 (real_of_int e - real_of_int today) = real_of_int (e - today)"
    using binary64_of_int [OF assms] by simp
  then show ?thesis
    using ceiling_binary64_days [OF assms] by (simp add: Math_ceil_days_def ms_per_day_def)
qed

lemma ceiling_days_div:
  "\<lceil>real_of_int x / real_of_int ms_per_day\<rceil> = - ((- x) div ms_per_day)"
proof -
  have "\<lfloor>real_of_int (- x) / real_of_int ms_per_day\<rfloor> = (- x) div ms_per_day"
    by (rule floor_divide_of_int_eq)
  then show ?thesis by (simp add: ceiling_def)
qed

lemma Math_ceil_days_div:
  assumes "\<bar>e - today\<bar> < 2 ^ 53"
  shows "Math_ceil_days (Some e) today = Some (- ((today - e) div ms_per_day))"
proof -
  have "Math_ceil_days (Some e) today =
      Some \<lceil>real_of_int (e - today) / real_of_int ms_per_day\<rceil>"
    using assms by (rule Math_ceil_days_exact)
  also have "\<dots> = Some (- ((- (e - today)) div ms_per_day))"
    by (simp only: ceiling_days_div)
  finally show ?thesis by simp
qed

lemma Math_ceil_days_None [simp]: "Math_ceil_days None today = None"
  by (simp add: Math_ceil_days_def)

subsection \<open>Auxiliary facts on the handlers\<close>

lemma filter_Nil_find: "filter P xs = [] \<longleftrightarrow> find P xs = None"
  by (induction xs) auto

lemma filter_Cons_find: "find P xs = Some x \<Longrightarrow> \<exists>rest. filter P xs = x # rest"
  by (induction xs) (auto split: if_splits)

lemma select_by_key_Nil: "select_by_key db k = [] \<longleftrightarrow> find_license db k = None"
  by (simp add: select_by_key_def find_license_def filter_Nil_find)

lemma select_by_key_Cons:
  "find_license db k = Some l \<Longrightarrow> \<exists>rest. select_by_key db k = l # rest"
  unfolding select_by_key_def find_license_def by (rule filter_Cons_find)

lemma falsy_Some [simp]: "falsy (Some s) \<longleftrightarrow> s = []"
  by (simp add: falsy_def)

lemma falsy_None [simp]: "falsy None"
  by (simp add: falsy_def)



lemma logActivation_licenses [simp]:
  "licenses (logActivation now db key mid ip a s m) = licenses db"
  by (simp add: logActivation_def split: option.splits)



text \<open>The handler of activate, branch by branch, in terms of the row the lookup yields.\<close>

lemma activate_missing:
  "key = [] \<or> mid = [] \<Longrightarrow>
     activate zone now db (Some key) (Some mid) ip = ((400, Failure Cle_et_machine_requis), db)"
  by (auto simp: activate_def)

lemma activate_unknown:
  assumes "key \<noteq> []" "mid \<noteq> []" "find_license db (trim (toUpperCase key)) = None"
  shows "activate zone now db (Some key) (Some mid) ip =
           ((404, Failure Cle_de_licence_invalide),
            logActivation now db key mid ip ''ACTIVATE'' False Cle_invalide)"
proof -
  from assms(3) have "select_by_key db (trim (toUpperCase key)) = []"
    by (simp add: select_by_key_Nil)
  with assms(1,2) show ?thesis by (simp add: activate_def)
qed

lemma activate_found:
  assumes "key \<noteq> []" "mid \<noteq> []" "find_license db (trim (toUpperCase key)) = Some lic"
  shows "activate zone now db (Some key) (Some mid) ip =
    (if \<not> is_active lic then
       ((403, Failure Licence_a_ete_desactivee),
        logActivation now db key mid ip ''ACTIVATE'' False Licence_desactivee)
     else if gt_Date now (new_Date zone (expires_at lic)) then
       ((403, Failure (Licence_a_expire_le (expires_at lic))),
        logActivation now db key mid ip ''ACTIVATE'' False Licence_expiree)
     else if \<not> falsy (machine_id lic) \<and> machine_id lic \<noteq> Some mid then
       ((403, Failure Deja_activee_sur_un_autre_ordinateur),
        logActivation now db key mid ip ''ACTIVATE'' False Deja_activee_sur_autre_machine)
     else
       (case (if falsy (machine_id lic)
              then update_binding now db mid (trim (toUpperCase key)) else Some db) of
          None \<Rightarrow> ((500, Failure Erreur_serveur_lors_de_l_activation), db)
        | Some db1 \<Rightarrow>
            ((200, Activated (client_name lic) (new_Date zone (expires_at lic))
                     (Math_ceil_days (new_Date zone (expires_at lic)) now)),
             logActivation now db1 key mid ip ''ACTIVATE'' True Activation_reussie)))"
proof -
  from assms(3) obtain rest where "select_by_key db (trim (toUpperCase key)) = lic # rest"
    using select_by_key_Cons by blast
  with assms(1,2) show ?thesis
    by (simp add: activate_def Let_def split: option.splits)
qed



lemma find_license_logActivation [simp]:
  "find_license (logActivation now db key mid ip a s m) k = find_license db k"
  by (simp add: find_license_def)













text \<open>Dates on a server in UTC.\<close>

lemma new_Date_utc:
  "\<bar>d\<bar> \<le> 100000000 \<Longrightarrow> new_Date utc_midnight d = Some (d * ms_per_day)"
  by (simp add: new_Date_def utc_midnight_def TimeClip_def ms_per_day_def abs_mult)

lemma sample_key:
  "trim (toUpperCase ''hasna-aaaa-aaaa-aaaa-aaaa '') = ''HASNA-AAAA-AAAA-AAAA-AAAA''"
  "trim (toUpperCase ''HASNA-AAAA-AAAA-AAAA-AAAA'') = ''HASNA-AAAA-AAAA-AAAA-AAAA''"
  by code_simp+

subsection \<open>The decision table of activate\<close>




subsection \<open>Verification reads only\<close>

text \<open>
  Claim C6. Whatever the request and whatever the tables hold, verify hands the tables
  back as they were: no license row changes and no activation-log row is written.
\<close>

theorem verify_read_only: "snd (verify zone now db license_key_f machine_id_f) = db"
  by (simp add: verify_def Let_def split: option.splits list.splits)

subsection \<open>The machine binding\<close>




subsection \<open>Verification from another machine\<close>



subsection \<open>Resetting the machine\<close>



subsection \<open>The response of a successful activation\<close>

lemma new_Date_bound: "new_Date zone d = Some e \<Longrightarrow> \<bar>e\<bar> \<le> 8640000000000000"
  by (simp add: new_Date_def TimeClip_def split: if_splits)

lemma days_of_unexpired:
  assumes "\<not> gt_Date now (new_Date zone d)" and "0 \<le> now"
  shows "Math_ceil_days (new_Date zone d) now =
           map_option (\<lambda>e. \<lceil>real_of_int (e - now) / real_of_int ms_per_day\<rceil>) (new_Date zone d)"
proof (cases "new_Date zone d")
  case None
  then show ?thesis by simp
next
  case (Some e)
  with assms(1) have "now \<le> e" by (simp add: gt_Date_def)
  moreover from Some have "\<bar>e\<bar> \<le> 8640000000000000" by (rule new_Date_bound)
  ultimately have "\<bar>e - now\<bar> < 2 ^ 53" using assms(2) by simp
  then show ?thesis using Some by (simp add: Math_ceil_days_exact)
qed

text \<open>
  Claim C9, as the code has it. Whenever activate answers 200, on a clock that is not
  before the epoch, the request carried a key, the normalised key finds a row, and the
  body carries that row's client name, its expiry date and the number of days
  remaining. When the expiry date is one a JavaScript date can hold, the date sent is
  the instant at which the expiry day starts on the server and the number of days is
  the ceiling of that instant minus the current instant, divided by the length of a
  day; when it is not, both are sent as null.
\<close>

theorem activate_success_response:
  assumes "fst (fst (activate zone now db license_key_f machine_id_f ip)) = 200"
    and "0 \<le> now"
  shows "\<exists>key lic. license_key_f = Some key \<and>
           find_license db (trim (toUpperCase key)) = Some lic \<and>
           snd (fst (activate zone now db license_key_f machine_id_f ip)) =
             Activated (client_name lic) (new_Date zone (expires_at lic))
               (map_option (\<lambda>e. \<lceil>real_of_int (e - now) / real_of_int ms_per_day\<rceil>)
                  (new_Date zone (expires_at lic)))"
proof -
  from assms(1) obtain key mid where req: "license_key_f = Some key" "machine_id_f = Some mid"
    by (cases license_key_f; cases machine_id_f) (auto simp: activate_def)
  from assms(1) req have ne: "key \<noteq> []" "mid \<noteq> []"
    by (auto simp: activate_missing)
  show ?thesis
  proof (cases "find_license db (trim (toUpperCase key))")
    case None
    with assms(1) req ne show ?thesis by (simp add: activate_unknown)
  next
    case (Some lic)
    from assms(1) req ne Some have "\<not> gt_Date now (new_Date zone (expires_at lic))"
      by (auto simp: activate_found split: if_splits)
    then have "Math_ceil_days (new_Date zone (expires_at lic)) now =
        map_option (\<lambda>e. \<lceil>real_of_int (e - now) / real_of_int ms_per_day\<rceil>)
          (new_Date zone (expires_at lic))"
      using assms(2) by (rule days_of_unexpired)
    with assms(1) req ne Some show ?thesis
      by (auto simp: activate_found split: if_splits option.splits)
  qed
qed

text \<open>
  The claim as written fails for an expiry date beyond the range of a JavaScript date
  (day 100000001, which the store accepts): the activation succeeds and carries no
  number of days.
\<close>

theorem activate_success_response_counterexample:
  "fst (activate utc_midnight noon_2024_12_31
          \<lparr>licenses = [moulin\<lparr>expires_at := 100000001\<rparr>], activation_logs = []\<rparr>
          (Some ''HASNA-AAAA-AAAA-AAAA-AAAA'') (Some ''PC-001'') None) =
     (200, Activated ''Moulin Test'' None None)"
proof -
  let ?l = "moulin\<lparr>expires_at := 100000001\<rparr>"
  let ?db = "\<lparr>licenses = [?l], activation_logs = []\<rparr>"
  let ?key = "''HASNA-AAAA-AAAA-AAAA-AAAA''"
  have "license_key moulin = ''HASNA-AAAA-AAAA-AAAA-AAAA''"
    by (simp add: moulin_def)
  then have f: "find_license ?db (trim (toUpperCase ?key)) = Some ?l"
    by (simp add: sample_key find_license_def)
  have a: "is_active ?l" "machine_id ?l = None" "expires_at ?l = 100000001"
    "client_name ?l = ''Moulin Test''"
    by (simp_all add: moulin_def)
  have d: "new_Date utc_midnight 100000001 = None"
    by (simp add: new_Date_def utc_midnight_def TimeClip_def ms_per_day_def)
  have w: "update_binding noon_2024_12_31 ?db ''PC-001'' (trim (toUpperCase ?key)) \<noteq> None"
    by (simp add: update_binding_def varchar_def)
  show ?thesis
    using a d w by (auto simp: activate_found [OF _ _ f] gt_Date_def split: option.splits)
qed

text \<open>Thirty days and a half before the expiry instant, thirty days remain.\<close>

theorem activate_success_response_witness:
  "fst (fst (activate utc_midnight noon_2024_12_31
               \<lparr>licenses = [moulin\<lparr>expires_at := 20118\<rparr>], activation_logs = []\<rparr>
               (Some ''hasna-aaaa-aaaa-aaaa-aaaa '') (Some ''PC-001'') None)) = 200 \<and>
   snd (fst (activate utc_midnight noon_2024_12_31
               \<lparr>licenses = [moulin\<lparr>expires_at := 20118\<rparr>], activation_logs = []\<rparr>
               (Some ''hasna-aaaa-aaaa-aaaa-aaaa '') (Some ''PC-001'') None)) =
     Activated ''Moulin Test'' (Some 1738195200000) (Some 30)"
proof -
  let ?l = "moulin\<lparr>expires_at := 20118\<rparr>"
  let ?db = "\<lparr>licenses = [?l], activation_logs = []\<rparr>"
  let ?key = "''hasna-aaaa-aaaa-aaaa-aaaa ''"
  let ?r = "activate utc_midnight noon_2024_12_31 ?db (Some ?key) (Some ''PC-001'') None"
  note k = sample_key(1)
  have "license_key moulin = ''HASNA-AAAA-AAAA-AAAA-AAAA''"
    by (simp add: moulin_def)
  then have f: "find_license ?db (trim (toUpperCase ?key)) = Some ?l"
    by (simp add: k find_license_def)
  have a: "is_active ?l" "machine_id ?l = None" "expires_at ?l = 20118"
    "client_name ?l = ''Moulin Test''"
    by (simp_all add: moulin_def)
  have d: "new_Date utc_midnight 20118 = Some 1738195200000"
    by (simp add: new_Date_utc ms_per_day_def)
  have e: "\<not> gt_Date noon_2024_12_31 (Some 1738195200000)"
    by (simp add: gt_Date_def noon_2024_12_31_def)
  have w: "update_binding noon_2024_12_31 ?db ''PC-001'' (trim (toUpperCase ?key)) \<noteq> None"
    by (simp add: update_binding_def varchar_def)
  have s: "fst (fst ?r) = 200"
    using a d e w by (auto simp: activate_found [OF _ _ f] split: option.splits)
  have p: "0 \<le> noon_2024_12_31"
    by (simp add: noon_2024_12_31_def)
  from activate_success_response [OF s p] f obtain lic where
    "Some ?l = Some lic" and
    b: "snd (fst ?r) = Activated (client_name lic) (new_Date utc_midnight (expires_at lic))
          (map_option (\<lambda>e. \<lceil>real_of_int (e - noon_2024_12_31) / real_of_int ms_per_day\<rceil>)
             (new_Date utc_midnight (expires_at lic)))"
    by auto
  then have "lic = ?l" by simp
  moreover have "\<lceil>real_of_int (1738195200000 - noon_2024_12_31) / real_of_int ms_per_day\<rceil> = 30"
    by (simp add: ceiling_days_div noon_2024_12_31_def ms_per_day_def)
  ultimately show ?thesis
    using s b a d by simp
qed

subsection \<open>Resetting without a key\<close>

text \<open>
  Claim C10. A resetMachine request whose body has no \<open>license_key\<close> is never answered
  with the validation status 400 and never changes the tables; once the caller is
  admitted, the call of \<open>toUpperCase\<close> on the absent value throws and the answer is the
  500 of the handler's \<open>catch\<close>.
\<close>

theorem resetMachine_missing_key:
  "fst (fst (resetMachine ADMIN_KEY db admin_key None)) \<noteq> 400 \<and>
   snd (resetMachine ADMIN_KEY db admin_key None) = db \<and>
   (admin_key = ADMIN_KEY \<longrightarrow>
      fst (resetMachine ADMIN_KEY db admin_key None) = (500, Failure Erreur_serveur))"
  by (simp add: resetMachine_def)

text \<open>An admitted caller who leaves the key out.\<close>

theorem resetMachine_missing_key_witness:
  "resetMachine (Some ''s3cret'') \<lparr>licenses = [moulin], activation_logs = []\<rparr>
     (Some ''s3cret'') None =
     ((500, Failure Erreur_serveur), \<lparr>licenses = [moulin], activation_logs = []\<rparr>)"
  using resetMachine_missing_key [of "Some ''s3cret''"
      "\<lparr>licenses = [moulin], activation_logs = []\<rparr>" "Some ''s3cret''"]
  by (simp add: prod_eq_iff)

subsection \<open>The administrative secret\<close>

text \<open>
  Claim C4. Let an administrative secret be configured. Each administrative handler
  (create, list, resetMachine) compares the secret of the request with it before
  anything else: a request with another secret or with none is answered 401, whatever
  its other fields, and the tables are handed back unchanged, with no activation-log
  row; a request with the configured secret is never answered 401.
\<close>

theorem admin_secret_gate:
  assumes "ADMIN_KEY = Some secret"
  shows "(admin_key \<noteq> Some secret \<longrightarrow>
      create ADMIN_KEY random parse_date now db admin_key client_name_f client_email_f
        expires_at_f notes_f = ((401, Failure Acces_non_autorise), db) \<and>
      list_licenses ADMIN_KEY db admin_key = ((401, Failure Acces_non_autorise), db) \<and>
      resetMachine ADMIN_KEY db admin_key license_key_f =
        ((401, Failure Acces_non_autorise), db)) \<and>
   (admin_key = Some secret \<longrightarrow>
      fst (fst (create ADMIN_KEY random parse_date now db admin_key client_name_f
                  client_email_f expires_at_f notes_f)) \<noteq> 401 \<and>
      fst (fst (list_licenses ADMIN_KEY db admin_key)) \<noteq> 401 \<and>
      fst (fst (resetMachine ADMIN_KEY db admin_key license_key_f)) \<noteq> 401)"
  using assms
  by (simp add: create_def list_licenses_def resetMachine_def Let_def
      split: option.splits)

text \<open>
  A create request and a reset request without a secret and a list request with a wrong
  one are refused and change nothing; the right secret is admitted.
\<close>

theorem admin_secret_gate_witness:
  "create (Some ''s3cret'') (\<lambda>i. 1 / 2) (\<lambda>s. Some 20118) 5
     \<lparr>licenses = [], activation_logs = []\<rparr>
     None (Some ''Moulin Test'') None (Some ''2025-01-30'') None =
     ((401, Failure Acces_non_autorise), \<lparr>licenses = [], activation_logs = []\<rparr>) \<and>
   resetMachine (Some ''s3cret'')
     \<lparr>licenses = [moulin\<lparr>machine_id := Some ''PC-001''\<rparr>], activation_logs = []\<rparr>
     None (Some ''HASNA-AAAA-AAAA-AAAA-AAAA'') =
     ((401, Failure Acces_non_autorise),
      \<lparr>licenses = [moulin\<lparr>machine_id := Some ''PC-001''\<rparr>], activation_logs = []\<rparr>) \<and>
   list_licenses (Some ''s3cret'') \<lparr>licenses = [moulin], activation_logs = []\<rparr>
     (Some ''guess'') =
     ((401, Failure Acces_non_autorise), \<lparr>licenses = [moulin], activation_logs = []\<rparr>) \<and>
   fst (fst (list_licenses (Some ''s3cret'') \<lparr>licenses = [moulin], activation_logs = []\<rparr>
     (Some ''s3cret''))) \<noteq> 401"
  using
    admin_secret_gate [where admin_key = None and ADMIN_KEY = "Some ''s3cret''"
      and secret = "''s3cret''"
      and random = "\<lambda>i. 1 / 2" and parse_date = "\<lambda>s. Some 20118" and now = 5
      and db = "\<lparr>licenses = [], activation_logs = []\<rparr>"
      and client_name_f = "Some ''Moulin Test''" and client_email_f = None
      and expires_at_f = "Some ''2025-01-30''" and notes_f = None, OF refl]
    admin_secret_gate [where admin_key = None and ADMIN_KEY = "Some ''s3cret''"
      and secret = "''s3cret''"
      and db = "\<lparr>licenses = [moulin\<lparr>machine_id := Some ''PC-001''\<rparr>],
                 activation_logs = []\<rparr>"
      and license_key_f = "Some ''HASNA-AAAA-AAAA-AAAA-AAAA''", OF refl]
    admin_secret_gate [where admin_key = "Some ''guess''" and ADMIN_KEY = "Some ''s3cret''"
      and secret = "''s3cret''"
      and db = "\<lparr>licenses = [moulin], activation_logs = []\<rparr>", OF refl]
    admin_secret_gate [where admin_key = "Some ''s3cret''" and ADMIN_KEY = "Some ''s3cret''"
      and secret = "''s3cret''"
      and db = "\<lparr>licenses = [moulin], activation_logs = []\<rparr>", OF refl]
  by simp

text \<open>
  Outside the claim: when the variable \<open>ADMIN_KEY\<close> is not set at all, the comparison
  is between two absent values, and a reset request without any secret is admitted.
\<close>

lemma unset_ADMIN_KEY_admits_absent_secret:
  "resetMachine None
     \<lparr>licenses = [moulin\<lparr>machine_id := Some ''PC-001''\<rparr>], activation_logs = []\<rparr>
     None (Some ''HASNA-AAAA-AAAA-AAAA-AAAA'') =
     ((200, Machine_reset), \<lparr>licenses = [moulin], activation_logs = []\<rparr>)"
  by (simp add: resetMachine_def sample_key select_by_key_def update_reset_def moulin_def)

subsection \<open>The expiry boundary\<close>

text \<open>
  The handlers compare instants: a license is taken as expired as soon as the current
  instant is later than the start of its expiry day. On a server in UTC, a license whose
  expiry date is before the current date is therefore expired, and on the expiry date
  itself only the very first instant of the day passes the comparison.
\<close>

lemma ms_per_day_pos: "0 < ms_per_day"
  by (simp add: ms_per_day_def)

lemma start_of_day_le: "utc_midnight (date_of now) \<le> now"
  unfolding utc_midnight_def date_of_def ms_per_day_def by simp

lemma past_date_is_expired: "d < date_of now \<Longrightarrow> now > utc_midnight d"
proof -
  assume "d < date_of now"
  then have "d * ms_per_day < date_of now * ms_per_day"
    using ms_per_day_pos by simp
  also have "\<dots> \<le> now"
    using start_of_day_le [of now] by (simp add: utc_midnight_def)
  finally show ?thesis by (simp add: utc_midnight_def)
qed

lemma expiry_day_only_at_midnight:
  "date_of now = d \<Longrightarrow> now \<le> utc_midnight d \<longleftrightarrow> now = utc_midnight d"
  using start_of_day_le [of now] by auto

text \<open>
  Claim C1, at its failing input. The sample license is active and expires on
  2024-12-31. At noon of that day the current date equals the expiry date, the claim
  asks for the license to be valid, and the code answers 403 (expired) to activate and
  \<open>valid: false\<close> to verify.
\<close>

theorem expiry_day_refused:
  "date_of noon_2024_12_31 = expires_at moulin \<and> is_active moulin \<and>
   fst (activate utc_midnight noon_2024_12_31 \<lparr>licenses = [moulin], activation_logs = []\<rparr>
          (Some ''HASNA-AAAA-AAAA-AAAA-AAAA'') (Some ''PC-001'') None) =
     (403, Failure (Licence_a_expire_le 20088)) \<and>
   fst (verify utc_midnight noon_2024_12_31
          \<lparr>licenses = [moulin\<lparr>machine_id := Some ''PC-001''\<rparr>], activation_logs = []\<rparr>
          (Some ''HASNA-AAAA-AAAA-AAAA-AAAA'') (Some ''PC-001'')) =
     (200, Verified False ''Moulin Test'' (Some (20088 * 86400000)) (Some 0) True)"
proof -
  note k = sample_key(2)
  have d: "date_of noon_2024_12_31 = expires_at moulin"
    by (simp add: date_of_def noon_2024_12_31_def ms_per_day_def moulin_def)
  have a: "is_active moulin"
    by (simp add: moulin_def)
  have x: "new_Date utc_midnight 20088 = Some 1735603200000"
    by (simp add: new_Date_utc ms_per_day_def)
  have "\<bar>1735603200000 - noon_2024_12_31\<bar> < 2 ^ 53"
    by (simp add: noon_2024_12_31_def)
  then have r: "Math_ceil_days (Some 1735603200000) noon_2024_12_31 = Some 0"
    by (simp add: Math_ceil_days_div noon_2024_12_31_def ms_per_day_def)
  have e: "gt_Date noon_2024_12_31 (Some 1735603200000)"
    "\<not> le_Date noon_2024_12_31 (Some 1735603200000)"
    by (simp_all add: gt_Date_def le_Date_def noon_2024_12_31_def)
  have act: "fst (activate utc_midnight noon_2024_12_31
          \<lparr>licenses = [moulin], activation_logs = []\<rparr>
          (Some ''HASNA-AAAA-AAAA-AAAA-AAAA'') (Some ''PC-001'') None) =
     (403, Failure (Licence_a_expire_le 20088))"
    using e x by (simp add: activate_def k select_by_key_def moulin_def)
  have ver: "fst (verify utc_midnight noon_2024_12_31
          \<lparr>licenses = [moulin\<lparr>machine_id := Some ''PC-001''\<rparr>], activation_logs = []\<rparr>
          (Some ''HASNA-AAAA-AAAA-AAAA-AAAA'') (Some ''PC-001'')) =
     (200, Verified False ''Moulin Test'' (Some (20088 * 86400000)) (Some 0) True)"
    using e r x by (simp add: verify_def k select_by_key_and_machine_def moulin_def)
  from d a act ver show ?thesis by (intro conjI)
qed

subsection \<open>The shape of generated keys\<close>

lemma charAt_random:
  assumes "binary64 r = r" and "0 \<le> r" and "r < 1"
  shows "\<exists>c \<in> set chars. charAt chars \<lfloor>binary64 (r * real (length chars))\<rfloor> = [c]"
proof -
  have len: "length chars = 36" by (simp add: chars_def)
  let ?i = "\<lfloor>binary64 (r * 36)\<rfloor>"
  from random_index_in_range [OF assms] have lo: "0 \<le> ?i" and hi: "?i < 36"
    by simp_all
  from lo hi have "nat ?i < length chars" unfolding len by linarith
  then have "chars ! nat ?i \<in> set chars" by (rule nth_mem)
  moreover have "charAt chars \<lfloor>binary64 (r * real (length chars))\<rfloor> = [chars ! nat ?i]"
    using lo hi by (simp add: charAt_def len)
  ultimately show ?thesis by blast
qed

lemma segment_loop_appends:
  assumes "\<forall>i. binary64 (random i) = random i \<and> 0 \<le> random i \<and> random i < 1"
  shows "\<exists>rest. segment_loop random c n segment = segment @ rest \<and> length rest = n \<and>
           list_all (\<lambda>x. x \<in> set chars) rest"
proof (induction n arbitrary: c segment)
  case 0
  then show ?case by simp
next
  case (Suc n)
  from assms obtain x where x: "x \<in> set chars"
    "charAt chars \<lfloor>binary64 (random c * real (length chars))\<rfloor> = [x]"
    using charAt_random by blast
  from Suc [of "Suc c" "segment @ [x]"] obtain rest where
    "segment_loop random (Suc c) n (segment @ [x]) = (segment @ [x]) @ rest"
    "length rest = n" "list_all (\<lambda>x. x \<in> set chars) rest"
    by blast
  with x have "segment_loop random c (Suc n) segment = segment @ (x # rest) \<and>
      length (x # rest) = Suc n \<and> list_all (\<lambda>x. x \<in> set chars) (x # rest)"
    by simp
  then show ?case by blast
qed

lemma segment_is_group:
  assumes "\<forall>i. binary64 (random i) = random i \<and> 0 \<le> random i \<and> random i < 1"
  shows "is_group (segment_loop random c 4 [])"
  using segment_loop_appends [OF assms, of c 4 "[]"] by (auto simp: is_group_def)

lemma segments_loop_appends:
  "segments_loop random c n segments =
     segments @ map (\<lambda>j. segment_loop random (c + 4 * j) 4 []) [0..<n]"
proof (induction n arbitrary: c segments)
  case 0
  then show ?case by simp
next
  case (Suc n)
  have "map (\<lambda>j. segment_loop random (c + 4 * j) 4 []) [0..<Suc n] =
        segment_loop random c 4 [] #
        map (\<lambda>j. segment_loop random (c + 4 + 4 * j) 4 []) [0..<n]"
    by (simp add: upt_conv_Cons map_Suc_upt [symmetric] add.assoc del: upt_Suc)
  with Suc show ?case by simp
qed

lemma group_key_shape:
  assumes "is_group g1" "is_group g2" "is_group g3" "is_group g4"
  shows "key_shape (''HASNA-'' @ g1 @ ''-'' @ g2 @ ''-'' @ g3 @ ''-'' @ g4)"
  using assms by (simp add: key_shape_def is_group_def nth_append)

lemma binary64_half: "binary64 (1 / 2) = 1 / 2"
proof -
  have lo: "2 powr of_int (- 1) \<le> \<bar>1 / 2 :: real\<bar>"
    by (simp add: powr_minus_divide)
  have hi: "\<bar>1 / 2 :: real\<bar> < 2 powr of_int (- 1 + 1)"
    by simp
  have u: "ulp (1 / 2) = 1 / 2 ^ 53"
    using ulp_eq [OF lo hi] by (simp add: powr_minus_divide)
  have "(1 / 2 :: real) / ulp (1 / 2) = real_of_int (2 ^ 52)"
    by (simp add: u)
  then have "round_half_even ((1 / 2) / ulp (1 / 2)) = 2 ^ 52"
    by (simp only: round_half_even_int)
  then show ?thesis
    by (simp add: binary64_def u)
qed

lemma charAt_half: "charAt chars \<lfloor>binary64 ((1 / 2) * real (length chars))\<rfloor> = ''S''"
proof -
  have "length chars = 36" by (simp add: chars_def)
  then have "(1 / 2) * real (length chars) = real_of_int 18" by simp
  moreover have "binary64 (real_of_int 18) = real_of_int 18"
    by (rule binary64_of_int) simp
  ultimately have "\<lfloor>binary64 ((1 / 2) * real (length chars))\<rfloor> = 18" by simp
  then show ?thesis by (simp add: charAt_def chars_def)
qed

text \<open>
  Claim C8. As long as every call of \<open>Math.random()\<close> yields a binary64 number from 0
  inclusive to 1 exclusive, the generated key is the prefix HASNA followed by four
  groups, each introduced by a hyphen and made of four characters of the 36-character
  alphabet of capital letters and digits.
\<close>

theorem generateLicenseKey_shape:
  assumes "\<forall>i. binary64 (random i) = random i \<and> 0 \<le> random i \<and> random i < 1"
  shows "key_shape (generateLicenseKey random)"
proof -
  have "[0..<4] = [0, 1, 2, Suc 2]"
    by (simp add: upt_rec)
  then have "generateLicenseKey random =
      ''HASNA-'' @ segment_loop random 0 4 [] @ ''-'' @ segment_loop random 4 4 [] @ ''-'' @
      segment_loop random 8 4 [] @ ''-'' @ segment_loop random 12 4 []"
    by (simp add: generateLicenseKey_def segments_loop_appends)
  then show ?thesis
    using segment_is_group [OF assms] by (simp only: group_key_shape)
qed

text \<open>A generator stuck at one half yields the letter S sixteen times.\<close>

theorem generateLicenseKey_shape_witness:
  "generateLicenseKey (\<lambda>i. 1 / 2) = ''HASNA-SSSS-SSSS-SSSS-SSSS'' \<and>
   key_shape (generateLicenseKey (\<lambda>i. 1 / 2))"
proof -
  have r: "\<forall>i::nat. binary64 (1 / 2) = 1 / 2 \<and> 0 \<le> (1 / 2 :: real) \<and> (1 / 2 :: real) < 1"
    by (simp add: binary64_half)
  have "segment_loop (\<lambda>i. 1 / 2) c 4 [] = ''SSSS''" for c
    by (simp add: numeral_eq_Suc charAt_half del: times_divide_eq_left)
  then have "generateLicenseKey (\<lambda>i. 1 / 2) = ''HASNA-SSSS-SSSS-SSSS-SSSS''"
    by (simp add: generateLicenseKey_def segments_loop_appends upt_rec)
  with generateLicenseKey_shape [OF r] show ?thesis by simp
qed

subsection \<open>Key uniqueness is kept by every handler\<close>

lemma unique_keys_empty: "unique_keys \<lparr>licenses = [], activation_logs = []\<rparr>"
  by (simp add: unique_keys_def)

lemma unique_keys_logActivation [simp]:
  "unique_keys (logActivation now db key mid ip a s m) = unique_keys db"
  by (simp add: unique_keys_def)

lemma unique_keys_update_binding:
  "update_binding now db mid k = Some db1 \<Longrightarrow> unique_keys db1 = unique_keys db"
proof -
  assume "update_binding now db mid k = Some db1"
  then have "map license_key (licenses db1) = map license_key (licenses db)"
    by (auto simp: update_binding_def split: option.splits)
  then show ?thesis by (simp add: unique_keys_def)
qed

lemma unique_keys_update_reset [simp]:
  "unique_keys (update_reset db k) = unique_keys db"
proof -
  have "map license_key (licenses (update_reset db k)) = map license_key (licenses db)"
    by (simp add: update_reset_def)
  then show ?thesis by (simp add: unique_keys_def)
qed

lemma unique_keys_activate:
  "unique_keys db \<Longrightarrow> unique_keys (snd (activate zone now db license_key_f machine_id_f ip))"
  by (auto simp: activate_def Let_def unique_keys_update_binding
      split: option.splits list.splits if_splits)

lemma unique_keys_resetMachine:
  "unique_keys db \<Longrightarrow> unique_keys (snd (resetMachine ADMIN_KEY db admin_key license_key_f))"
  by (simp add: resetMachine_def split: option.splits)

lemma unique_keys_insert_license:
  assumes "unique_keys db"
    and "insert_license parse_date now db key cname email expires notes_v = Some db1"
  shows "unique_keys db1"
proof -
  have "select_by_key db k = [] \<Longrightarrow> k \<notin> set (map license_key (licenses db))" for k
    by (auto simp: select_by_key_def filter_empty_conv)
  with assms show ?thesis
    by (auto simp: insert_license_def unique_keys_def split: option.splits if_splits)
qed

lemma unique_keys_create:
  assumes "unique_keys db"
  shows "unique_keys (snd (create ADMIN_KEY random parse_date now db admin_key client_name_f
           client_email_f expires_at_f notes_f))"
  using assms
  by (auto simp: create_def Let_def unique_keys_insert_license split: option.splits)

end
